theory Spec2Isabelle
  imports Complex_Main
begin

section \<open>The rhythm game: a shallow embedding of \<^verbatim>\<open>rhythmGame.py\<close>\<close>

text \<open>
  Conventions of the embedding.
  \<^item> Python \<^verbatim>\<open>int\<close> is \<open>int\<close>; Python \<^verbatim>\<open>float\<close> is \<open>real\<close>. Every speed that
    \<^verbatim>\<open>init_game\<close> configures is a multiple of one half, so the positions the game computes
    are exact in both readings.
  \<^item> An attribute that holds \<^verbatim>\<open>None\<close> or a number is an \<open>option\<close>.
  \<^item> The status strings \<^verbatim>\<open>'active'\<close>, \<^verbatim>\<open>'hit'\<close>, \<^verbatim>\<open>'missed'\<close> of a note and
    \<^verbatim>\<open>'hit'\<close>, \<^verbatim>\<open>'miss'\<close>, \<^verbatim>\<open>'incorrect'\<close>, \<^verbatim>\<open>'duplicated'\<close> of a record are the
    constructors of two datatypes.
  \<^item> An exception is the left injection of a sum.
  \<^item> The wall clock \<^verbatim>\<open>time.time()\<close> is a function from the number of readings taken so
    far to the value read; the game state counts the readings (\<open>clock_reads\<close>).
  \<^item> Random choices, the answers typed into the interactive prompts and the frame time
    of the pygame clock are parameters of the functions that consume them.
  \<^item> Rendering is left out. The CSV files are the lists of rows appended to them; the
    \<^verbatim>\<open>datetime.now()\<close> column of the feedback and analysis files is left out.
  \<^item> The file system is a parameter of the \<^verbatim>\<open>DataCollector\<close> constructor, which creates
    the data file: a predicate that says of a path whether the directory \<^verbatim>\<open>data\<close> exists
    or can be made and the file can be opened for writing. The constructor raises
    \<^verbatim>\<open>OSError\<close> (one of its subclasses) otherwise. The later appends go to files of the
    same directory and are taken to succeed.
\<close>

subsection \<open>Constants\<close>

definition WINDOW_WIDTH :: int where "WINDOW_WIDTH = 800"
definition WINDOW_HEIGHT :: int where "WINDOW_HEIGHT = 600"

definition KEYS :: "string list" where "KEYS = [''D'', ''F'', ''J'', ''K'']"
definition GAME_DURATION :: real where "GAME_DURATION = 70"
definition LEVELS :: int where "LEVELS = 5"
definition NOTE_WIDTH :: int where "NOTE_WIDTH = 80"
definition NOTE_HEIGHT :: int where "NOTE_HEIGHT = 40"
definition HIT_LINE_Y :: int where "HIT_LINE_Y = WINDOW_HEIGHT - 100"
definition BASIC_SPEED :: real where "BASIC_SPEED = 2"
definition BLOCK_SPEED_ACCR :: real where "BLOCK_SPEED_ACCR = 0"
definition LEVEL_SPEED_ACCR :: real where "LEVEL_SPEED_ACCR = 7 / 2"
definition SPAWN_INTERVAL :: real where "SPAWN_INTERVAL = 6 / 10"

subsection \<open>Python primitives\<close>

datatype error = IndexError | KeyError | ValueError | TypeError | OSError

text \<open>\<^verbatim>\<open>xs[i]\<close>: a negative index counts from the end, an index out of range raises.\<close>

definition py_getitem :: "'a list \<Rightarrow> int \<Rightarrow> error + 'a" where
  "py_getitem xs i =
     (if 0 \<le> i \<and> i < int (length xs) then Inr (xs ! nat i)
      else if i < 0 \<and> - int (length xs) \<le> i then Inr (xs ! nat (int (length xs) + i))
      else Inl IndexError)"

text \<open>\<^verbatim>\<open>xs.index(v)\<close>: the position of the first element equal to \<open>v\<close>.\<close>

fun py_index :: "'a list \<Rightarrow> 'a \<Rightarrow> error + nat" where
  "py_index [] v = Inl ValueError"
| "py_index (x # xs) v =
     (if x = v then Inr 0
      else case py_index xs v of Inl e \<Rightarrow> Inl e | Inr i \<Rightarrow> Inr (Suc i))"

text \<open>\<^verbatim>\<open>int(x)\<close> of a float truncates towards zero.\<close>

definition py_int :: "real \<Rightarrow> int" where
  "py_int r = (if 0 \<le> r then \<lfloor>r\<rfloor> else \<lceil>r\<rceil>)"

text \<open>\<^verbatim>\<open>round(x, 2)\<close>: to the nearest hundredth, a tie to the even neighbour.\<close>

definition py_round2 :: "real \<Rightarrow> real" where
  "py_round2 r =
     (let s = r * 100; f = \<lfloor>s\<rfloor>; d = s - of_int f
      in of_int (if d < 1 / 2 then f else if 1 / 2 < d then f + 1
                 else if even f then f else f + 1) / 100)"

text \<open>The truth value of an optional number: \<^verbatim>\<open>None\<close> and zero are false.\<close>

definition truthy :: "real option \<Rightarrow> bool" where
  "truthy v = (case v of None \<Rightarrow> False | Some r \<Rightarrow> r \<noteq> 0)"

subsection \<open>Class \<^verbatim>\<open>DifficultyManager\<close>\<close>

text \<open>A level is the dictionary \<^verbatim>\<open>{'speed': ..., 'acceleration': ...}\<close>.\<close>

record level_cfg =
  lv_speed :: real
  lv_acceleration :: real

record difficulty_manager =
  levels :: "level_cfg list"
  dm_current_level :: int
  current_speed :: real
  current_acceleration :: real

definition DifficultyManager_init :: difficulty_manager where
  "DifficultyManager_init =
     \<lparr>levels = [], dm_current_level = 1, current_speed = 2, current_acceleration = 0\<rparr>"

definition set_levels :: "level_cfg list \<Rightarrow> difficulty_manager \<Rightarrow> difficulty_manager" where
  "set_levels lvs dm = dm\<lparr>levels := lvs\<rparr>"

definition set_level :: "int \<Rightarrow> difficulty_manager \<Rightarrow> error + difficulty_manager" where
  "set_level level dm =
     (let dm1 = dm\<lparr>dm_current_level := level\<rparr>
      in if level \<le> int (length (levels dm1))
         then (case py_getitem (levels dm1) (level - 1) of
                 Inl e \<Rightarrow> Inl e
               | Inr l1 \<Rightarrow>
                   (let dm2 = dm1\<lparr>current_speed := lv_speed l1\<rparr>
                    in case py_getitem (levels dm2) (level - 1) of
                         Inl e \<Rightarrow> Inl e
                       | Inr l2 \<Rightarrow> Inr (dm2\<lparr>current_acceleration := lv_acceleration l2\<rparr>)))
         else Inr dm1)"

definition get_speed :: "difficulty_manager \<Rightarrow> real \<Rightarrow> real" where
  "get_speed dm elapsed_time = current_speed dm"

text \<open>The level list that \<^verbatim>\<open>init_game\<close> builds before it looks at the mode.\<close>

definition level_list :: "level_cfg list" where
  "level_list =
     map (\<lambda>i. \<lparr>lv_speed = BASIC_SPEED + of_int i * LEVEL_SPEED_ACCR,
                lv_acceleration = BLOCK_SPEED_ACCR\<rparr>) [0..<nat LEVELS]"

subsection \<open>Class \<^verbatim>\<open>Note\<close>\<close>

datatype note_state = Active | Hit | Missed

record note_obj =
  note_lane :: int
  note_x :: int
  note_y :: real
  note_speed :: real
  note_state :: note_state
  hit_time :: "real option"
  start_hit_time :: "real option"
  miss_time :: "real option"

definition Note :: "int \<Rightarrow> real \<Rightarrow> real \<Rightarrow> note_obj" where
  "Note lane speed y =
     \<lparr>note_lane = lane,
      note_x = (WINDOW_WIDTH div int (length KEYS)) * lane
               + (WINDOW_WIDTH div int (length KEYS) - NOTE_WIDTH) div 2,
      note_y = y, note_speed = speed, note_state = Active,
      hit_time = None, start_hit_time = None, miss_time = None\<rparr>"

subsection \<open>Class \<^verbatim>\<open>DataCollector\<close>\<close>

datatype hit_status = St_hit | St_miss | St_incorrect | St_duplicated

text \<open>One row of \<^verbatim>\<open>session_data\<close> (the dictionary \<^verbatim>\<open>data\<close> of \<^verbatim>\<open>record_hit\<close>).\<close>

record event =
  ev_timestamp :: int
  ev_level :: int
  ev_lane :: int
  hit_status :: hit_status
  reaction_time :: "int option"
  reaction_distance :: "int option"
  ev_speed :: real

text \<open>One row of the feedback file and one row of the analysis file.\<close>

record feedback_row =
  fb_level :: int
  fb_answers :: "int list"
  fb_game_duration :: real
  fb_exited :: bool

type_synonym 'v dict = "(int \<times> 'v) list"

record summary =
  sm_level :: int
  sm_hit_rate :: real
  sm_lane_hit_rates :: "real dict"
  sm_avg_reaction_time :: real
  sm_avg_lane_reaction_times :: "real dict"
  sm_incorrect_hit_rate :: real
  sm_lane_incorrect_hit_rates :: "real dict"
  sm_game_duration :: real
  sm_exit_rate :: int

record data_collector =
  dc_player_name :: "string option"
  dc_mode :: "string option"
  session_data :: "event list"
  dc_start_time :: real
  dc_level :: int
  csv_rows :: "event list"
  feedback_rows :: "feedback_row list"
  analysis_rows :: "summary list"

text \<open>
  The constructor (lines 83-105). \<open>new_collector\<close> holds the attributes it sets, \<open>now\<close>
  being its one reading of the clock. \<open>py_str\<close> is how an f-string formats an attribute
  that holds a string or \<^verbatim>\<open>None\<close>; \<open>csv_filename\<close> is \<^verbatim>\<open>self.filename\<close>, where \<open>stamp\<close> is
  what \<^verbatim>\<open>datetime.now().strftime("%Y%m%d_%H%M%S")\<close> returns. \<open>DataCollector_init\<close> is the
  constructor: after the attributes it makes the directory \<^verbatim>\<open>data\<close> when that is missing,
  opens the file for writing and writes the header. It raises when the file system \<open>fs\<close>
  does not let the file be created; a player name such as \<^verbatim>\<open>a/b\<close> names a directory
  that does not exist.
\<close>

type_synonym file_system = "string \<Rightarrow> bool"

definition new_collector :: "real \<Rightarrow> string option \<Rightarrow> string option \<Rightarrow> data_collector" where
  "new_collector now name md =
     \<lparr>dc_player_name = name, dc_mode = md, session_data = [], dc_start_time = now,
      dc_level = 1, csv_rows = [], feedback_rows = [], analysis_rows = []\<rparr>"

definition py_str :: "string option \<Rightarrow> string" where
  "py_str v = (case v of None \<Rightarrow> ''None'' | Some t \<Rightarrow> t)"

definition csv_filename :: "string option \<Rightarrow> string option \<Rightarrow> string \<Rightarrow> string" where
  "csv_filename name md stamp =
     ''data/'' @ py_str name @ ''_'' @ py_str md @ ''_'' @ stamp @ ''.csv''"

definition DataCollector_init :: "file_system \<Rightarrow> string \<Rightarrow> real \<Rightarrow> string option \<Rightarrow> string option
    \<Rightarrow> error + data_collector" where
  "DataCollector_init fs stamp now name md =
     (let dc = new_collector now name md
      in if fs (csv_filename name md stamp) then Inr dc else Inl OSError)"

text \<open>
  \<^verbatim>\<open>record_hit\<close> reads the clock once (\<open>now\<close>). Its local variables \<^verbatim>\<open>reaction_time\<close> and
  \<^verbatim>\<open>reaction_distance\<close> are \<open>computed_reaction_time\<close> and \<open>computed_reaction_distance\<close>;
  the conditional expressions that fill the record test them for truth.
\<close>

definition computed_reaction_time :: "note_obj \<Rightarrow> real option" where
  "computed_reaction_time n =
     (if truthy (hit_time n) \<and> truthy (start_hit_time n)
      then (case (hit_time n, start_hit_time n) of
              (Some h, Some s) \<Rightarrow> Some (h - s)
            | _ \<Rightarrow> None)
      else None)"

definition computed_reaction_distance :: "note_obj \<Rightarrow> real option" where
  "computed_reaction_distance n =
     (if truthy (hit_time n) then Some \<bar>note_y n - of_int HIT_LINE_Y\<bar> else None)"

definition record_hit :: "real \<Rightarrow> note_obj \<Rightarrow> int \<Rightarrow> hit_status \<Rightarrow> data_collector \<Rightarrow> data_collector" where
  "record_hit now n level status dc =
     (let timestamp = now - dc_start_time dc;
          rt = computed_reaction_time n;
          rd = computed_reaction_distance n;
          data = \<lparr>ev_timestamp = py_int (timestamp * 1000),
                  ev_level = level,
                  ev_lane = note_lane n,
                  hit_status = status,
                  reaction_time = (if truthy rt then map_option (\<lambda>r. py_int (r * 1000)) rt else None),
                  reaction_distance = (if truthy rd then map_option py_int rd else None),
                  ev_speed = py_round2 (note_speed n)\<rparr>
      in dc\<lparr>session_data := session_data dc @ [data], csv_rows := csv_rows dc @ [data]\<rparr>)"

definition save_feedback :: "int \<Rightarrow> int list \<Rightarrow> real \<Rightarrow> bool \<Rightarrow> data_collector \<Rightarrow> data_collector" where
  "save_feedback level feedback total_time exited dc =
     (let dc1 = dc\<lparr>dc_level := level\<rparr>
      in dc1\<lparr>feedback_rows := feedback_rows dc1 @
           [\<lparr>fb_level = level, fb_answers = feedback,
             fb_game_duration = total_time, fb_exited = exited\<rparr>]\<rparr>)"

text \<open>
  The dictionaries of \<^verbatim>\<open>analyze_data\<close> are association lists. \<open>dict_range n v\<close> is
  \<^verbatim>\<open>{lane: v for lane in range(n)}\<close>; \<open>dict_modify k f d\<close> is \<^verbatim>\<open>d[k] = f(d[k])\<close>, which
  raises \<^verbatim>\<open>KeyError\<close> when \<open>k\<close> is not a key.
\<close>

definition dict_range :: "nat \<Rightarrow> 'v \<Rightarrow> 'v dict" where
  "dict_range n v = map (\<lambda>l. (int l, v)) [0..<n]"

definition dict_modify :: "int \<Rightarrow> ('v \<Rightarrow> 'v) \<Rightarrow> 'v dict \<Rightarrow> error + 'v dict" where
  "dict_modify k f d =
     (case map_of d k of
        None \<Rightarrow> Inl KeyError
      | Some _ \<Rightarrow> Inr (map (\<lambda>(k', v). if k' = k then (k', f v) else (k', v)) d))"

text \<open>
  The two counting loops of \<^verbatim>\<open>analyze_data\<close> have one shape: for every record whose
  status is in \<open>both\<close> the lane's entry of the second dictionary is incremented, and
  when the status is \<open>one\<close> the lane's entry of the first dictionary too. The hit-rate
  loop is \<open>tally [St_hit, St_miss] St_hit\<close>, the incorrect-rate loop is
  \<open>tally [St_hit, St_incorrect] St_incorrect\<close>.
\<close>

fun tally :: "hit_status list \<Rightarrow> hit_status \<Rightarrow> event list \<Rightarrow> nat dict \<times> nat dict
    \<Rightarrow> error + (nat dict \<times> nat dict)" where
  "tally both one [] (prt, tot) = Inr (prt, tot)"
| "tally both one (d # ds) (prt, tot) =
     (if hit_status d \<in> set both
      then (case dict_modify (ev_lane d) Suc tot of
              Inl e \<Rightarrow> Inl e
            | Inr tot' \<Rightarrow>
                if hit_status d = one
                then (case dict_modify (ev_lane d) Suc prt of
                        Inl e \<Rightarrow> Inl e
                      | Inr prt' \<Rightarrow> tally both one ds (prt', tot'))
                else tally both one ds (prt, tot'))
      else tally both one ds (prt, tot))"

text \<open>\<^verbatim>\<open>a / b if b > 0 else 0\<close> on two counters.\<close>

definition rate :: "nat \<Rightarrow> nat \<Rightarrow> real" where
  "rate a b = (if b > 0 then real a / real b else 0)"

text \<open>\<^verbatim>\<open>{lane: part[lane] / total[lane] if total[lane] > 0 else 0 for lane in range(n)}\<close>\<close>

fun lane_rates :: "nat dict \<Rightarrow> nat dict \<Rightarrow> int list \<Rightarrow> error + real dict" where
  "lane_rates prt tot [] = Inr []"
| "lane_rates prt tot (l # ls) =
     (case (map_of prt l, map_of tot l) of
        (Some p, Some t) \<Rightarrow>
          (case lane_rates prt tot ls of
             Inl e \<Rightarrow> Inl e
           | Inr rs \<Rightarrow> Inr ((l, rate p t) # rs))
      | _ \<Rightarrow> Inl KeyError)"

text \<open>\<^verbatim>\<open>sum(times) / len(times) if times else 0\<close>\<close>

definition average :: "int list \<Rightarrow> real" where
  "average ts = (if ts \<noteq> [] then of_int (sum_list ts) / real (length ts) else 0)"

fun lane_times :: "event list \<Rightarrow> int list dict \<Rightarrow> error + int list dict" where
  "lane_times [] lrt = Inr lrt"
| "lane_times (d # ds) lrt =
     (case reaction_time d of
        None \<Rightarrow> lane_times ds lrt
      | Some r \<Rightarrow>
          (case dict_modify (ev_lane d) (\<lambda>ts. ts @ [r]) lrt of
             Inl e \<Rightarrow> Inl e
           | Inr lrt' \<Rightarrow> lane_times ds lrt'))"

definition count_status :: "hit_status list \<Rightarrow> event list \<Rightarrow> nat" where
  "count_status sts ds = length (filter (\<lambda>d. hit_status d \<in> set sts) ds)"

text \<open>
  \<^verbatim>\<open>analyze_data\<close> with the number of lanes as a parameter; the source reads it from the
  global \<^verbatim>\<open>KEYS\<close> (\<open>analyze_data\<close> below).
\<close>

definition analyze_data_lanes :: "nat \<Rightarrow> real \<Rightarrow> bool \<Rightarrow> data_collector \<Rightarrow> error + data_collector" where
  "analyze_data_lanes n total_time exited dc =
     (let ds = session_data dc;
          total_hits = count_status [St_hit] ds;
          total_notes = count_status [St_hit, St_miss] ds;
          hit_rate = rate total_hits total_notes
      in case tally [St_hit, St_miss] St_hit ds (dict_range n 0, dict_range n 0) of
           Inl e \<Rightarrow> Inl e
         | Inr (lane_hits, lane_totals) \<Rightarrow>
       (case lane_rates lane_hits lane_totals (map int [0..<n]) of
           Inl e \<Rightarrow> Inl e
         | Inr lane_hit_rates \<Rightarrow>
       (let reaction_times = List.map_filter reaction_time ds;
            avg_reaction_time = average reaction_times
        in case lane_times ds (dict_range n []) of
             Inl e \<Rightarrow> Inl e
           | Inr lane_reaction_times \<Rightarrow>
       (let avg_lane_reaction_times = map (\<lambda>(lane, ts). (lane, average ts)) lane_reaction_times;
            total_incorrect_hits = count_status [St_incorrect] ds;
            total_effective_hits = total_hits + total_incorrect_hits;
            incorrect_hit_rate = rate total_incorrect_hits total_effective_hits
        in case tally [St_hit, St_incorrect] St_incorrect ds (dict_range n 0, dict_range n 0) of
             Inl e \<Rightarrow> Inl e
           | Inr (lane_incorrect_hits, lane_effective_hits) \<Rightarrow>
       (case lane_rates lane_incorrect_hits lane_effective_hits (map int [0..<n]) of
           Inl e \<Rightarrow> Inl e
         | Inr lane_incorrect_hit_rates \<Rightarrow>
             Inr (dc\<lparr>analysis_rows := analysis_rows dc @
                       [\<lparr>sm_level = dc_level dc,
                         sm_hit_rate = hit_rate,
                         sm_lane_hit_rates = lane_hit_rates,
                         sm_avg_reaction_time = avg_reaction_time,
                         sm_avg_lane_reaction_times = avg_lane_reaction_times,
                         sm_incorrect_hit_rate = incorrect_hit_rate,
                         sm_lane_incorrect_hit_rates = lane_incorrect_hit_rates,
                         sm_game_duration = total_time,
                         sm_exit_rate = (if exited then 1 else 0)\<rparr>],
                     session_data := []\<rparr>))))))"

definition analyze_data :: "real \<Rightarrow> bool \<Rightarrow> data_collector \<Rightarrow> error + data_collector" where
  "analyze_data total_time exited dc = analyze_data_lanes (length KEYS) total_time exited dc"

subsection \<open>Class \<^verbatim>\<open>NoteGenerator\<close>\<close>

text \<open>
  The generator's \<^verbatim>\<open>difficulty_manager\<close> attribute is the game's own manager object
  (lines 315, 597, 657), so \<open>NoteGenerator_update\<close> receives it as an argument. The lane
  drawn by \<^verbatim>\<open>random.randint(0, len(KEYS) - 1)\<close> is the parameter \<open>rnd_lane\<close>.
\<close>

record note_generator =
  ng_notes :: "note_obj list"
  last_spawn_time :: real
  spawn_interval :: real

definition NoteGenerator_init :: note_generator where
  "NoteGenerator_init = \<lparr>ng_notes = [], last_spawn_time = 0, spawn_interval = SPAWN_INTERVAL\<rparr>"

definition NoteGenerator_update :: "difficulty_manager \<Rightarrow> int \<Rightarrow> real \<Rightarrow> note_generator \<Rightarrow> note_generator" where
  "NoteGenerator_update dm rnd_lane current_time ng =
     (let speed = get_speed dm current_time
      in if current_time - last_spawn_time ng \<ge> spawn_interval ng
         then ng\<lparr>ng_notes := ng_notes ng @ [Note rnd_lane speed 0],
                 last_spawn_time := current_time\<rparr>
         else ng)"

subsection \<open>Class \<^verbatim>\<open>Game\<close>\<close>

text \<open>
  The record holds the attributes of a \<^verbatim>\<open>Game\<close> object once \<^verbatim>\<open>init_game\<close> has run, and
  the number of clock readings taken so far. The pygame objects (screen, clock, font)
  are left out.
\<close>

record game =
  mode :: "string option"
  player_name :: "string option"
  running :: bool
  paused :: bool
  in_menu :: bool
  game_over :: bool
  difficulty_manager :: difficulty_manager
  current_level :: int
  note_generator :: note_generator
  data_collector :: data_collector
  start_time :: real
  combo :: int
  hits :: int
  incorrect_hits :: int
  total_notes :: int
  hit_line_flash_timer :: real
  pause_start_time :: "real option"
  total_paused_time :: real
  current_time :: real
  clock_reads :: nat

type_synonym clock = "nat \<Rightarrow> real"

text \<open>\<open>time_now clk g\<close> is what the next \<^verbatim>\<open>time.time()\<close> returns; \<open>tick\<close> consumes it.\<close>

definition time_now :: "clock \<Rightarrow> game \<Rightarrow> real" where
  "time_now clk g = clk (clock_reads g)"

definition tick :: "game \<Rightarrow> game" where
  "tick g = g\<lparr>clock_reads := Suc (clock_reads g)\<rparr>"

text \<open>
  \<^verbatim>\<open>init_game\<close>. The outcome of \<^verbatim>\<open>random.shuffle(levels)\<close> is the parameter \<open>shuffle\<close>. The
  clock is read by the \<^verbatim>\<open>DataCollector\<close> constructor and then for \<^verbatim>\<open>start_time\<close>; \<open>fs\<close>
  and \<open>stamp\<close> are the file system and the time stamp that the constructor meets.
\<close>

definition init_game :: "file_system \<Rightarrow> string \<Rightarrow> clock \<Rightarrow> (level_cfg list \<Rightarrow> level_cfg list)
    \<Rightarrow> game \<Rightarrow> error + game" where
  "init_game fs stamp clk shuffle g =
     (let g1 = g\<lparr>difficulty_manager := DifficultyManager_init, current_level := 1\<rparr>;
          lvs = (if mode g1 = Some ''normal'' then level_list
                 else if mode g1 = Some ''test'' then shuffle level_list
                 else []);
          dm1 = set_levels lvs (difficulty_manager g1)
      in case set_level (current_level g1) dm1 of
           Inl e \<Rightarrow> Inl e
         | Inr dm2 \<Rightarrow>
             (let g2 = g1\<lparr>difficulty_manager := dm2, note_generator := NoteGenerator_init\<rparr>
              in case DataCollector_init fs stamp (time_now clk g2) (player_name g2) (mode g2) of
                   Inl e \<Rightarrow> Inl e
                 | Inr dc \<Rightarrow>
                     (let g3 = (tick g2)\<lparr>data_collector := dc\<rparr>;
                          g4 = (tick g3)\<lparr>start_time := time_now clk g3\<rparr>
                      in Inr (g4\<lparr>combo := 0, hits := 0, incorrect_hits := 0,
                                 total_notes := 0, paused := False, game_over := False,
                                 hit_line_flash_timer := 0, pause_start_time := None,
                                 total_paused_time := 0, current_time := 0\<rparr>))))"

text \<open>
  The space-bar branch of \<^verbatim>\<open>handle_input\<close> (lines 336-344). Resuming subtracts
  \<^verbatim>\<open>pause_start_time\<close> from the clock, which raises when that attribute is \<^verbatim>\<open>None\<close>.
\<close>

definition toggle_pause :: "clock \<Rightarrow> game \<Rightarrow> error + game" where
  "toggle_pause clk g =
     (if \<not> in_menu g \<and> \<not> game_over g
      then (let g1 = g\<lparr>paused := \<not> paused g\<rparr>
            in if paused g1
               then Inr ((tick g1)\<lparr>pause_start_time := Some (time_now clk g1)\<rparr>)
               else (case pause_start_time g1 of
                       None \<Rightarrow> Inl TypeError
                     | Some p \<Rightarrow>
                         (let paused_duration = time_now clk g1 - p
                          in Inr ((tick g1)\<lparr>total_paused_time :=
                                                total_paused_time g1 + paused_duration,
                                              pause_start_time := None\<rparr>))))
      else Inr g)"

text \<open>
  \<^verbatim>\<open>handle_note_hit\<close>. \<open>scan_notes\<close> is the loop over \<^verbatim>\<open>notes[:]\<close>: it returns the list
  with the note it removed left out, the flags \<^verbatim>\<open>hit\<close> and \<^verbatim>\<open>duplicate\<close>, and the game
  state. The note that is removed is the one the loop is at, so removing it by identity
  is leaving it out of the result.
\<close>

fun scan_notes :: "clock \<Rightarrow> int \<Rightarrow> note_obj list \<Rightarrow> game \<Rightarrow> note_obj list \<times> bool \<times> bool \<times> game" where
  "scan_notes clk lane [] g = ([], False, False, g)"
| "scan_notes clk lane (n # ns) g =
     (if note_lane n = lane \<and> note_state n = Active
      then if of_int (HIT_LINE_Y - NOTE_HEIGHT) \<le> note_y n \<and> note_y n \<le> of_int HIT_LINE_Y
           then (let n' = n\<lparr>note_state := Hit, hit_time := Some (time_now clk g)\<rparr>;
                     g1 = (tick g)\<lparr>combo := combo g + 1, hits := hits g + 1,
                                    total_notes := total_notes g + 1\<rparr>;
                     g2 = (tick g1)\<lparr>data_collector :=
                             record_hit (time_now clk g1) n' (current_level g1) St_hit
                               (data_collector g1)\<rparr>
                 in (ns, True, False, g2))
           else if note_state n = Hit
           then (let g1 = (tick g)\<lparr>data_collector :=
                             record_hit (time_now clk g) n (current_level g) St_duplicated
                               (data_collector g)\<rparr>
                 in (n # ns, False, True, g1))
           else (case scan_notes clk lane ns g of
                   (ns', hit, duplicate, g') \<Rightarrow> (n # ns', hit, duplicate, g'))
      else (case scan_notes clk lane ns g of
              (ns', hit, duplicate, g') \<Rightarrow> (n # ns', hit, duplicate, g')))"

text \<open>The body of \<^verbatim>\<open>handle_note_hit\<close> once the lane is known.\<close>

definition press :: "clock \<Rightarrow> int \<Rightarrow> game \<Rightarrow> game" where
  "press clk lane g =
     (case scan_notes clk lane (ng_notes (note_generator g)) g of
        (ns, hit, duplicate, g1) \<Rightarrow>
          (let g2 = g1\<lparr>note_generator := (note_generator g1)\<lparr>ng_notes := ns\<rparr>\<rparr>
           in if \<not> hit \<and> \<not> duplicate
              then (let g3 = g2\<lparr>combo := 0\<rparr>;
                        dummy_note = (Note lane (current_speed (difficulty_manager g3))
                                        (of_int HIT_LINE_Y))\<lparr>hit_time := Some (time_now clk g3)\<rparr>;
                        g4 = tick g3;
                        g5 = (tick g4)\<lparr>data_collector :=
                                record_hit (time_now clk g4) dummy_note (current_level g4)
                                  St_incorrect (data_collector g4)\<rparr>
                    in g5\<lparr>incorrect_hits := incorrect_hits g5 + 1,
                          hit_line_flash_timer := 2 / 10\<rparr>)
              else g2))"

definition handle_note_hit :: "clock \<Rightarrow> string \<Rightarrow> game \<Rightarrow> error + game" where
  "handle_note_hit clk key g =
     (case py_index KEYS key of
        Inl e \<Rightarrow> Inl e
      | Inr lane \<Rightarrow> Inr (press clk (int lane) g))"

text \<open>
  \<^verbatim>\<open>show_feedback\<close>. The questionnaire loop is interactive: its outcome is the parameter
  \<open>answers\<close>, \<open>None\<close> when the window is closed before the third answer (the source then
  returns without saving), and the list of answers otherwise.
\<close>

definition show_feedback :: "int list option \<Rightarrow> bool \<Rightarrow> game \<Rightarrow> error + game" where
  "show_feedback answers skipped g =
     (case answers of
        None \<Rightarrow> Inr g
      | Some ans \<Rightarrow>
          (let total_time = current_time g;
               exited = skipped;
               dc1 = save_feedback (current_level g) ans total_time exited (data_collector g)
           in case analyze_data total_time exited dc1 of
                Inl e \<Rightarrow> Inl e
              | Inr dc2 \<Rightarrow> Inr (g\<lparr>data_collector := dc2\<rparr>)))"

text \<open>
  The block that ends a level, which \<^verbatim>\<open>update\<close> (lines 591-603) and \<^verbatim>\<open>skip_level\<close>
  (lines 651-663) both contain.
\<close>

definition advance_level :: "clock \<Rightarrow> game \<Rightarrow> error + game" where
  "advance_level clk g =
     (let g1 = g\<lparr>current_level := current_level g + 1\<rparr>
      in if current_level g1 > LEVELS
         then Inr (g1\<lparr>game_over := True, in_menu := True\<rparr>)
         else (case set_level (current_level g1) (difficulty_manager g1) of
                 Inl e \<Rightarrow> Inl e
               | Inr dm \<Rightarrow>
                   Inr ((tick g1)\<lparr>difficulty_manager := dm,
                                   note_generator := NoteGenerator_init,
                                   start_time := time_now clk g1,
                                   combo := 0, hits := 0, incorrect_hits := 0,
                                   total_paused_time := 0, current_time := 0\<rparr>)))"

definition skip_level :: "clock \<Rightarrow> int list option \<Rightarrow> game \<Rightarrow> error + game" where
  "skip_level clk answers g =
     (case show_feedback answers True g of
        Inl e \<Rightarrow> Inl e
      | Inr g1 \<Rightarrow> advance_level clk g1)"

definition return_to_menu :: "int list option \<Rightarrow> game \<Rightarrow> error + game" where
  "return_to_menu answers g =
     (case show_feedback answers True g of
        Inl e \<Rightarrow> Inl e
      | Inr g1 \<Rightarrow> Inr (g1\<lparr>in_menu := True, game_over := True\<rparr>))"

text \<open>
  \<^verbatim>\<open>update\<close>. \<open>update_note\<close> is one round of the loop over \<^verbatim>\<open>notes[:]\<close> (lines 561-579):
  it returns the note as the round leaves it, or \<open>None\<close> when the round removes it from
  the list. A missed note whose \<^verbatim>\<open>miss_time\<close> is \<^verbatim>\<open>None\<close> makes the subtraction raise.
\<close>

definition update_note :: "clock \<Rightarrow> note_obj \<Rightarrow> game \<Rightarrow> error + (note_obj option \<times> game)" where
  "update_note clk n g =
     (if note_state n = Active
      then (let n1 = n\<lparr>note_y := note_y n + note_speed n\<rparr>;
                hittable = (start_hit_time n1 = None
                            \<and> note_y n1 \<ge> of_int (HIT_LINE_Y - NOTE_HEIGHT));
                n2 = (if hittable then n1\<lparr>start_hit_time := Some (time_now clk g)\<rparr> else n1);
                g1 = (if hittable then tick g else g)
            in if note_y n2 > of_int HIT_LINE_Y \<and> note_state n2 = Active
               then (let n3 = n2\<lparr>note_state := Missed, miss_time := Some (time_now clk g1)\<rparr>;
                         g2 = (tick g1)\<lparr>combo := 0\<rparr>;
                         g3 = (tick g2)\<lparr>data_collector :=
                                 record_hit (time_now clk g2) n3 (current_level g2) St_miss
                                   (data_collector g2)\<rparr>
                     in Inr (Some n3, g3\<lparr>total_notes := total_notes g3 + 1\<rparr>))
               else Inr (Some n2, g1))
      else if note_state n = Missed
      then (case miss_time n of
              None \<Rightarrow> Inl TypeError
            | Some m \<Rightarrow>
                if time_now clk g - m > 5 / 10
                then Inr (None, tick g)
                else Inr (Some n, tick g))
      else Inr (Some n, g))"

fun update_notes :: "clock \<Rightarrow> note_obj list \<Rightarrow> game \<Rightarrow> error + (note_obj list \<times> game)" where
  "update_notes clk [] g = Inr ([], g)"
| "update_notes clk (n # ns) g =
     (case update_note clk n g of
        Inl e \<Rightarrow> Inl e
      | Inr (r, g1) \<Rightarrow>
          (case update_notes clk ns g1 of
             Inl e \<Rightarrow> Inl e
           | Inr (rs, g2) \<Rightarrow> Inr ((case r of None \<Rightarrow> rs | Some n' \<Rightarrow> n' # rs), g2)))"

text \<open>
  The flash timer (lines 582-586); \<open>frame_ms\<close> is what \<^verbatim>\<open>self.clock.get_time()\<close> returns.
\<close>

definition update_flash :: "int \<Rightarrow> game \<Rightarrow> game" where
  "update_flash frame_ms g =
     (if hit_line_flash_timer g > 0
      then (let delta_time = of_int frame_ms / 1000;
                g1 = g\<lparr>hit_line_flash_timer := hit_line_flash_timer g - delta_time\<rparr>
            in if hit_line_flash_timer g1 < 0 then g1\<lparr>hit_line_flash_timer := 0\<rparr> else g1)
      else g)"

definition update :: "clock \<Rightarrow> int \<Rightarrow> int \<Rightarrow> int list option \<Rightarrow> game \<Rightarrow> error + game" where
  "update clk rnd_lane frame_ms answers g =
     (if \<not> paused g \<and> \<not> in_menu g \<and> \<not> game_over g
      then (let g1 = (tick g)\<lparr>current_time :=
                       time_now clk g - start_time g - total_paused_time g\<rparr>;
                g2 = g1\<lparr>note_generator :=
                       NoteGenerator_update (difficulty_manager g1) rnd_lane (current_time g1)
                         (note_generator g1)\<rparr>
            in case update_notes clk (ng_notes (note_generator g2)) g2 of
                 Inl e \<Rightarrow> Inl e
               | Inr (ns, g3) \<Rightarrow>
                   (let g4 = g3\<lparr>note_generator := (note_generator g3)\<lparr>ng_notes := ns\<rparr>\<rparr>;
                        g5 = update_flash frame_ms g4
                    in if current_time g5 \<ge> GAME_DURATION
                       then (case show_feedback answers False g5 of
                               Inl e \<Rightarrow> Inl e
                             | Inr g6 \<Rightarrow> advance_level clk g6)
                       else Inr g5))
      else Inr g)"

text \<open>
  One \<^verbatim>\<open>KEYDOWN\<close> event of \<^verbatim>\<open>handle_input\<close> (lines 335-368). \<open>K_other name\<close> is a key
  other than the six the function tests for, with \<^verbatim>\<open>pygame.key.name(event.key)\<close>.
  \<open>confirmed\<close> is the answer given to \<^verbatim>\<open>confirm_action\<close>, \<open>typed\<close> the name entered in
  \<^verbatim>\<open>get_player_name\<close> (\<open>None\<close> when the window is closed instead); \<open>fs\<close> and \<open>stamp\<close>
  are passed on to \<^verbatim>\<open>init_game\<close>.
\<close>

datatype pygame_key = K_SPACE | K_s | K_m | K_q | K_1 | K_2 | K_other string

definition key_name :: "pygame_key \<Rightarrow> string" where
  "key_name k =
     (case k of K_SPACE \<Rightarrow> ''space'' | K_s \<Rightarrow> ''s'' | K_m \<Rightarrow> ''m'' | K_q \<Rightarrow> ''q''
      | K_1 \<Rightarrow> ''1'' | K_2 \<Rightarrow> ''2'' | K_other name \<Rightarrow> name)"

text \<open>\<^verbatim>\<open>str.upper()\<close> on the ASCII letters.\<close>

definition upper_char :: "char \<Rightarrow> char" where
  "upper_char c =
     (let k = of_char c :: nat in if 97 \<le> k \<and> k \<le> 122 then char_of (k - 32) else c)"

definition get_player_name :: "string option \<Rightarrow> game \<Rightarrow> game" where
  "get_player_name typed g =
     (case typed of
        None \<Rightarrow> g
      | Some name \<Rightarrow> g\<lparr>player_name := Some (if name \<noteq> [] then name else ''Player'')\<rparr>)"

definition handle_keydown :: "file_system \<Rightarrow> string \<Rightarrow> clock
    \<Rightarrow> (level_cfg list \<Rightarrow> level_cfg list) \<Rightarrow> bool
    \<Rightarrow> int list option \<Rightarrow> string option \<Rightarrow> pygame_key \<Rightarrow> game \<Rightarrow> error + game" where
  "handle_keydown fs stamp clk shuffle confirmed answers typed key g =
     (case (if key = K_SPACE then toggle_pause clk g
            else if key = K_s then (if confirmed then skip_level clk answers g else Inr g)
            else if key = K_m then (if confirmed then return_to_menu answers g else Inr g)
            else if key = K_q then Inr (if confirmed then g\<lparr>running := False\<rparr> else g)
            else Inr g) of
        Inl e \<Rightarrow> Inl e
      | Inr g1 \<Rightarrow>
          if in_menu g1
          then (if key \<in> {K_1, K_2}
                then (let g2 = g1\<lparr>mode := Some (if key = K_1 then ''test'' else ''normal'')\<rparr>;
                          g3 = get_player_name typed g2
                      in init_game fs stamp clk shuffle (g3\<lparr>in_menu := False\<rparr>))
                else Inr g1)
          else (let k = map upper_char (key_name key)
                in if k \<in> set KEYS then handle_note_hit clk k g1 else Inr g1))"

text \<open>
  The object that the constructor \<^verbatim>\<open>Game()\<close> returns has six attributes. The others are
  created by \<^verbatim>\<open>init_game\<close>; the record shows them at the values \<^verbatim>\<open>init_game\<close> gives them,
  with no level list and the clock not yet read.
\<close>

definition Game_init :: game where
  "Game_init =
     \<lparr>mode = None, player_name = None, running = True, paused = False, in_menu = True,
      game_over = False, difficulty_manager = DifficultyManager_init, current_level = 1,
      note_generator = NoteGenerator_init,
      data_collector = new_collector 0 None None,
      start_time = 0, combo = 0, hits = 0, incorrect_hits = 0, total_notes = 0,
      hit_line_flash_timer = 0, pause_start_time = None, total_paused_time = 0,
      current_time = 0, clock_reads = 0\<rparr>"

subsection \<open>Predicates used in the statements\<close>

text \<open>
  The two tests of lines 400 and 401: the note is in the pressed lane, is active and
  lies in the judgment window.
\<close>

definition can_be_hit :: "int \<Rightarrow> note_obj \<Rightarrow> bool" where
  "can_be_hit lane n \<longleftrightarrow>
     note_lane n = lane \<and> note_state n = Active
     \<and> of_int (HIT_LINE_Y - NOTE_HEIGHT) \<le> note_y n \<and> note_y n \<le> of_int HIT_LINE_Y"

text \<open>
  The game state that the hit branch (lines 403-409) leaves when it resolves the note
  \<open>n\<close>, and the record that the incorrect branch (lines 420-428) appends.
\<close>

definition hit_note :: "clock \<Rightarrow> note_obj \<Rightarrow> game \<Rightarrow> game" where
  "hit_note clk n g =
     (let n' = n\<lparr>note_state := Hit, hit_time := Some (time_now clk g)\<rparr>;
          g1 = (tick g)\<lparr>combo := combo g + 1, hits := hits g + 1,
                         total_notes := total_notes g + 1\<rparr>
      in (tick g1)\<lparr>data_collector :=
             record_hit (time_now clk g1) n' (current_level g1) St_hit (data_collector g1)\<rparr>)"

definition incorrect_event :: "clock \<Rightarrow> int \<Rightarrow> game \<Rightarrow> event" where
  "incorrect_event clk lane g =
     \<lparr>ev_timestamp =
        py_int ((clk (Suc (clock_reads g)) - dc_start_time (data_collector g)) * 1000),
      ev_level = current_level g, ev_lane = lane, hit_status = St_incorrect,
      reaction_time = None, reaction_distance = None,
      ev_speed = py_round2 (current_speed (difficulty_manager g))\<rparr>"

text \<open>
  \<open>dict_of n f\<close> is the dictionary over \<^verbatim>\<open>range(n)\<close> whose entry at \<open>l\<close> is \<open>f l\<close>;
  \<open>lane_count P l ds\<close> is the number of records of \<open>ds\<close> in lane \<open>l\<close> whose status
  satisfies \<open>P\<close>.
\<close>

definition dict_of :: "nat \<Rightarrow> (nat \<Rightarrow> 'v) \<Rightarrow> 'v dict" where
  "dict_of n f = map (\<lambda>l. (int l, f l)) [0..<n]"

definition lane_count :: "(hit_status \<Rightarrow> bool) \<Rightarrow> nat \<Rightarrow> event list \<Rightarrow> nat" where
  "lane_count P l ds = length (filter (\<lambda>d. P (hit_status d) \<and> ev_lane d = int l) ds)"

text \<open>
  The bookkeeping of the session clock is consistent: the elapsed time is not negative
  and does not exceed what the next clock reading would give; while paused, what the
  reading at the pause gave.
\<close>

definition clock_ok :: "clock \<Rightarrow> game \<Rightarrow> bool" where
  "clock_ok clk g \<longleftrightarrow>
     0 \<le> current_time g \<and>
     (if paused g
      then (case pause_start_time g of
              None \<Rightarrow> False
            | Some p \<Rightarrow> p \<le> clk (clock_reads g)
                \<and> current_time g \<le> p - start_time g - total_paused_time g)
      else current_time g \<le> clk (clock_reads g) - start_time g - total_paused_time g)"

subsection \<open>Example states\<close>

text \<open>
  A file system in which every file can be created; one in which the directory
  \<^verbatim>\<open>data\<close> can be written and holds no directory, so that a path with a slash after
  \<^verbatim>\<open>data/\<close> cannot be created; and a time stamp. A clock whose
  \<open>k\<close>-th reading is \<open>1000 + k\<close> seconds; the session that choosing the
  normal mode in the menu starts under it (\<open>example_session_start\<close> below); and that
  session with one marker of lane 2 at position 480, which entered the window at 1001.
\<close>

definition any_file :: file_system where
  "any_file path = True"


definition run_stamp :: string where
  "run_stamp = ''20240101_120000''"

definition example_clock :: clock where
  "example_clock k = 1000 + of_nat k"

definition example_session :: game where
  "example_session =
     Game_init\<lparr>mode := Some ''normal'', player_name := Some ''Player'', in_menu := False,
       difficulty_manager := \<lparr>levels = level_list, dm_current_level = 1, current_speed = 2,
                                current_acceleration = 0\<rparr>,
       data_collector := new_collector 1000 (Some ''Player'') (Some ''normal''),
       start_time := 1001, clock_reads := 2\<rparr>"

definition example_marker :: note_obj where
  "example_marker = (Note 2 2 0)\<lparr>note_y := 480, start_hit_time := Some 1001\<rparr>"

definition marker_session :: game where
  "marker_session =
     example_session\<lparr>note_generator := NoteGenerator_init\<lparr>ng_notes := [example_marker]\<rparr>\<rparr>"


text \<open>\<open>steps\<close> runs a list of calls one after the other and stops at the first exception.\<close>

fun steps :: "(game \<Rightarrow> error + game) list \<Rightarrow> game \<Rightarrow> error + game" where
  "steps [] g = Inr g"
| "steps (f # fs) g = (case f g of Inl e \<Rightarrow> Inl e | Inr g' \<Rightarrow> steps fs g')"

text \<open>
  \<open>marker_run\<close> starts from the menu: the test mode is chosen, the shuffle putting the
  levels in reverse order (speed 16 first), and \<^verbatim>\<open>update\<close> runs thirty times, the random
  lane being 2. Under \<open>still_clock\<close> the first \<^verbatim>\<open>update\<close> spawns a marker and the later
  ones move it to position 480. \<open>press_J\<close> is a \<^verbatim>\<open>KEYDOWN\<close> of the key J, at clock
  reading 1001. \<open>scoreboard\<close> shows the statuses recorded, the combo, the hits, the
  incorrect presses and the active set.
\<close>

definition still_clock :: clock where
  "still_clock k = (if k < 2 then 1000 else if k < 33 then 1000 + 6 / 10 else 1001)"

definition marker_run :: "(game \<Rightarrow> error + game) list" where
  "marker_run =
     handle_keydown any_file run_stamp still_clock rev False None (Some ''Ada'') K_1
     # replicate 30 (update still_clock 2 16 None)"

definition press_J :: "game \<Rightarrow> error + game" where
  "press_J = handle_keydown any_file run_stamp still_clock rev False None None (K_other ''j'')"

definition scoreboard :: "game \<Rightarrow> hit_status list \<times> int \<times> int \<times> int \<times> note_obj list" where
  "scoreboard g = (map hit_status (session_data (data_collector g)), combo g, hits g,
                   incorrect_hits g, ng_notes (note_generator g))"

text \<open>
  \<open>skip_while_paused\<close> is four frames of the main loop (\<^verbatim>\<open>handle_input\<close>, then \<^verbatim>\<open>update\<close>)
  from the menu: the normal mode is chosen; the game is paused; the level is skipped,
  the confirmation and the questionnaire taking twenty seconds; the game is resumed a
  second later. \<open>slow_skip_clock\<close> is the wall clock of that run: the first four readings
  (two by \<^verbatim>\<open>init_game\<close>, one by the first \<^verbatim>\<open>update\<close>, one by the pause) are 1000, the
  reading of \<^verbatim>\<open>skip_level\<close> is 1020, the later ones are 1021.
\<close>

definition slow_skip_clock :: clock where
  "slow_skip_clock k = (if k < 4 then 1000 else if k = 4 then 1020 else 1021)"

definition skip_while_paused :: "(game \<Rightarrow> error + game) list" where
  "skip_while_paused =
     [handle_keydown any_file run_stamp slow_skip_clock (\<lambda>l. l) False None (Some ''Ada'') K_2,
      update slow_skip_clock 0 16 None,
      handle_keydown any_file run_stamp slow_skip_clock (\<lambda>l. l) False None None K_SPACE,
      update slow_skip_clock 0 16 None,
      handle_keydown any_file run_stamp slow_skip_clock (\<lambda>l. l) True (Some [3, 3, 3]) None K_s,
      update slow_skip_clock 0 16 None,
      handle_keydown any_file run_stamp slow_skip_clock (\<lambda>l. l) False None None K_SPACE,
      update slow_skip_clock 0 16 None]"

text \<open>
  A buffer of four hits and four misses, one of each in every lane of the four.
\<close>

definition example_event :: "int \<Rightarrow> hit_status \<Rightarrow> event" where
  "example_event l s =
     \<lparr>ev_timestamp = 0, ev_level = 1, ev_lane = l, hit_status = s,
      reaction_time = None, reaction_distance = None, ev_speed = 2\<rparr>"

definition even_buffer :: data_collector where
  "even_buffer =
     (new_collector 0 None None)\<lparr>session_data :=
        [example_event 0 St_hit, example_event 0 St_miss,
         example_event 1 St_hit, example_event 1 St_miss,
         example_event 2 St_miss, example_event 2 St_hit,
         example_event 3 St_miss, example_event 3 St_hit]\<rparr>"

section \<open>Theorems\<close>

subsection \<open>Level selection\<close>

text \<open>
  Claim C5 says that selecting a level beyond the declared count signals a fault. It does
  not: at level 6 of the five levels the manager returns normally, records 6 as the
  current level and keeps the speed of level 5.
\<close>

theorem set_level_beyond_count_counterexample:
  "int (length (levels \<lparr>levels = level_list, dm_current_level = 5, current_speed = 16,
                        current_acceleration = 0\<rparr>)) < 6
   \<and> set_level 6 \<lparr>levels = level_list, dm_current_level = 5, current_speed = 16,
                    current_acceleration = 0\<rparr>
     = Inr \<lparr>levels = level_list, dm_current_level = 6, current_speed = 16,
            current_acceleration = 0\<rparr>"
  by (simp add: set_level_def level_list_def LEVELS_def)

text \<open>
  Claim C5, amended: for every level index \<open>n\<close> strictly greater than the declared level
  count, \<open>set_level n\<close> returns normally; it records \<open>n\<close> as the current level and leaves
  the level list, the speed and the acceleration as they were.
\<close>

theorem set_level_beyond_count:
  "int (length (levels dm)) < n \<Longrightarrow> set_level n dm = Inr (dm\<lparr>dm_current_level := n\<rparr>)"
  by (simp add: set_level_def Let_def)

theorem set_level_beyond_count_witness:
  "set_level 6 (set_levels level_list DifficultyManager_init)
   = Inr ((set_levels level_list DifficultyManager_init)\<lparr>dm_current_level := 6\<rparr>)"
  using set_level_beyond_count [of "set_levels level_list DifficultyManager_init" 6]
  by (simp add: set_levels_def level_list_def LEVELS_def)

subsection \<open>Session construction\<close>






subsection \<open>Resolving a press\<close>

lemma example_session_start:
  "handle_keydown any_file run_stamp example_clock (\<lambda>l. l) False None (Some []) K_2 Game_init
     = Inr example_session"
  by (simp add: handle_keydown_def get_player_name_def init_game_def Game_init_def
      DataCollector_init_def any_file_def
      example_session_def example_clock_def set_level_def set_levels_def py_getitem_def
      DifficultyManager_init_def level_list_def LEVELS_def BASIC_SPEED_def
      LEVEL_SPEED_ACCR_def BLOCK_SPEED_ACCR_def tick_def time_now_def Let_def)

lemma scan_notes_none:
  "\<forall>n\<in>set ns. \<not> can_be_hit lane n \<Longrightarrow> scan_notes clk lane ns g = (ns, False, False, g)"
  by (induction ns) (auto simp: can_be_hit_def)

lemma scan_notes_first:
  "\<forall>n\<in>set pre. \<not> can_be_hit lane n \<Longrightarrow> can_be_hit lane m \<Longrightarrow>
   scan_notes clk lane (pre @ m # post) g = (pre @ post, True, False, hit_note clk m g)"
  by (induction pre) (auto simp: can_be_hit_def hit_note_def Let_def)

text \<open>The branch that sets \<^verbatim>\<open>duplicate\<close> is never taken.\<close>

lemma scan_notes_never_duplicate:
  "fst (snd (snd (scan_notes clk lane ns g))) = False"
  by (induction ns) (auto simp: Let_def split: prod.splits)

lemma record_hit_dummy:
  "record_hit now ((Note lane sp (of_int HIT_LINE_Y))\<lparr>hit_time := Some t\<rparr>) lvl st dc =
     dc\<lparr>session_data := session_data dc @
            [\<lparr>ev_timestamp = py_int ((now - dc_start_time dc) * 1000), ev_level = lvl,
              ev_lane = lane, hit_status = st, reaction_time = None,
              reaction_distance = None, ev_speed = py_round2 sp\<rparr>],
        csv_rows := csv_rows dc @
            [\<lparr>ev_timestamp = py_int ((now - dc_start_time dc) * 1000), ev_level = lvl,
              ev_lane = lane, hit_status = st, reaction_time = None,
              reaction_distance = None, ev_speed = py_round2 sp\<rparr>]\<rparr>"
  by (simp add: record_hit_def Note_def computed_reaction_time_def
      computed_reaction_distance_def truthy_def Let_def)

lemma press_none:
  assumes "\<forall>n\<in>set (ng_notes (note_generator g)). \<not> can_be_hit lane n"
  shows "press clk lane g =
     g\<lparr>combo := 0, clock_reads := Suc (Suc (clock_reads g)),
       data_collector := (data_collector g)\<lparr>
          session_data := session_data (data_collector g) @ [incorrect_event clk lane g],
          csv_rows := csv_rows (data_collector g) @ [incorrect_event clk lane g]\<rparr>,
       incorrect_hits := incorrect_hits g + 1, hit_line_flash_timer := 2 / 10\<rparr>"
  using assms
  by (simp add: press_def scan_notes_none record_hit_dummy incorrect_event_def
      tick_def time_now_def Let_def)

lemma press_first:
  assumes "ng_notes (note_generator g) = pre @ m # post"
    "\<forall>n\<in>set pre. \<not> can_be_hit lane n" "can_be_hit lane m"
  shows "press clk lane g =
     (hit_note clk m g)\<lparr>note_generator := (note_generator g)\<lparr>ng_notes := pre @ post\<rparr>\<rparr>"
  using assms
  by (simp add: press_def scan_notes_first hit_note_def tick_def Let_def)



text \<open>
  Claim C1 says that a press in a lane whose marker has just been resolved as a hit is
  classified as a duplicate and changes no counter. The code on \<open>marker_run\<close> followed
  by two presses of the key J: after the run the marker of lane 2 is active at position
  480; the first press records a hit and removes the marker; the second records an
  incorrect press, resets the combo from 1 to 0 and counts one incorrect press.
\<close>

theorem second_press_is_incorrect:
  "map_sum (\<lambda>e. e) scoreboard (steps marker_run Game_init)
     = Inr ([], 0, 0, 0, [(Note 2 16 480)\<lparr>start_hit_time := Some (1000 + 6 / 10)\<rparr>])
   \<and> map_sum (\<lambda>e. e) scoreboard (steps (marker_run @ [press_J]) Game_init)
     = Inr ([St_hit], 1, 1, 0, [])
   \<and> map_sum (\<lambda>e. e) scoreboard (steps (marker_run @ [press_J, press_J]) Game_init)
     = Inr ([St_hit, St_incorrect], 0, 1, 1, [])"
  by code_simp



text \<open>
  Claim C3: when no active marker of lane \<open>lane\<close> is within the judgment window, a press
  of that lane, repeated \<open>k\<close> times, leaves the active set as it was, appends \<open>k\<close>
  records that are all incorrect presses, adds \<open>k\<close> to the incorrect-press counter
  and, for \<open>k > 0\<close>, leaves the combo at 0; the hit counters do not change.
\<close>

theorem press_without_marker:
  assumes "\<forall>n\<in>set (ng_notes (note_generator g)). \<not> can_be_hit lane n"
  shows "(py_index KEYS key = Inr i \<and> lane = int i
            \<longrightarrow> handle_note_hit clk key g = Inr (press clk lane g))
     \<and> ng_notes (note_generator ((press clk lane ^^ k) g)) = ng_notes (note_generator g)
     \<and> map hit_status (session_data (data_collector ((press clk lane ^^ k) g)))
         = map hit_status (session_data (data_collector g)) @ replicate k St_incorrect
     \<and> incorrect_hits ((press clk lane ^^ k) g) = incorrect_hits g + int k
     \<and> (0 < k \<longrightarrow> combo ((press clk lane ^^ k) g) = 0)
     \<and> hits ((press clk lane ^^ k) g) = hits g
     \<and> total_notes ((press clk lane ^^ k) g) = total_notes g"
proof (induction k)
  case 0
  show ?case by (simp add: handle_note_hit_def)
next
  case (Suc k)
  let ?gk = "(press clk lane ^^ k) g"
  from Suc assms have "\<forall>n\<in>set (ng_notes (note_generator ?gk)). \<not> can_be_hit lane n"
    by simp
  from press_none [OF this, of clk] Suc show ?case
    by (simp add: incorrect_event_def replicate_append_same)
qed

theorem press_without_marker_witness:
  "handle_note_hit example_clock ''D'' marker_session = Inr (press example_clock 0 marker_session)
   \<and> ng_notes (note_generator ((press example_clock 0 ^^ 3) marker_session)) = [example_marker]
   \<and> map hit_status (session_data (data_collector ((press example_clock 0 ^^ 3) marker_session)))
       = [St_incorrect, St_incorrect, St_incorrect]
   \<and> incorrect_hits ((press example_clock 0 ^^ 3) marker_session) = 3
   \<and> combo ((press example_clock 0 ^^ 3) marker_session) = 0"
proof -
  have h: "\<forall>n\<in>set (ng_notes (note_generator marker_session)). \<not> can_be_hit 0 n"
    "py_index KEYS ''D'' = Inr 0"
    "ng_notes (note_generator marker_session) = [example_marker]"
    "session_data (data_collector marker_session) = []"
    "incorrect_hits marker_session = 0"
    by (simp_all add: marker_session_def example_marker_def Note_def example_session_def
        Game_init_def NoteGenerator_init_def new_collector_def can_be_hit_def KEYS_def)
  from press_without_marker [OF h(1), where key = "''D''" and i = 0 and clk = example_clock
      and k = 3] h(2-)
  show ?thesis by (simp add: numeral_3_eq_3)
qed

text \<open>
  Claim C4 says that the record of an incorrect press carries the reaction distance 0.
  The code on such an input: the normal mode is chosen in the menu and the key D is
  pressed while no marker exists. The one record appended is an incorrect press whose
  reaction distance is absent.
\<close>

theorem incorrect_press_distance_absent:
  "map_sum (\<lambda>e. e)
     (\<lambda>g. map (\<lambda>d. (hit_status d, reaction_distance d)) (session_data (data_collector g)))
     (steps [handle_keydown any_file run_stamp example_clock (\<lambda>l. l) False None (Some ''Ada'') K_2,
             handle_keydown any_file run_stamp example_clock (\<lambda>l. l) False None None (K_other ''d'')] Game_init)
     = Inr [(St_incorrect, None)]"
  by code_simp

subsection \<open>Recording and summarising\<close>

lemma lane_times_append:
  "lane_times (xs @ ys) d = (case lane_times xs d of Inl e \<Rightarrow> Inl e | Inr d' \<Rightarrow> lane_times ys d')"
  by (induction xs arbitrary: d) (auto split: option.splits sum.splits)

lemma analyze_data_lanes_averages:
  assumes "analyze_data_lanes n t ex dc = Inr dcr"
  shows "\<exists>row lrt. analysis_rows dcr = analysis_rows dc @ [row] \<and> session_data dcr = []
     \<and> sm_avg_reaction_time row = average (List.map_filter reaction_time (session_data dc))
     \<and> lane_times (session_data dc) (dict_range n []) = Inr lrt
     \<and> sm_avg_lane_reaction_times row = map (\<lambda>(lane, ts). (lane, average ts)) lrt"
  using assms
  by (auto simp: analyze_data_lanes_def Let_def split: sum.splits prod.splits)

lemma record_hit_event:
  "session_data (record_hit now n lvl st dc) = session_data dc @
     [\<lparr>ev_timestamp = py_int ((now - dc_start_time dc) * 1000), ev_level = lvl,
       ev_lane = note_lane n, hit_status = st,
       reaction_time = (if truthy (computed_reaction_time n)
                        then map_option (\<lambda>r. py_int (r * 1000)) (computed_reaction_time n)
                        else None),
       reaction_distance = (if truthy (computed_reaction_distance n)
                            then map_option py_int (computed_reaction_distance n) else None),
       ev_speed = py_round2 (note_speed n)\<rparr>]"
  by (simp add: record_hit_def Let_def)

text \<open>
  Claim C10: the record that \<open>record_hit\<close> appends has no reaction time when the
  computed reaction time is exactly 0, and no reaction distance when the computed
  reaction distance is exactly 0. When the computed reaction time is 0, the averages of
  the summary (overall and per lane) are those of the records that were in the buffer
  before: the new record does not enter them.
\<close>

theorem zero_reaction_stored_as_absent:
  "(\<exists>e. session_data (record_hit now n lvl st dc) = session_data dc @ [e]
        \<and> (computed_reaction_time n = Some 0 \<longrightarrow> reaction_time e = None)
        \<and> (computed_reaction_distance n = Some 0 \<longrightarrow> reaction_distance e = None))
   \<and> (computed_reaction_time n = Some 0
        \<and> analyze_data t ex (record_hit now n lvl st dc) = Inr dcr
      \<longrightarrow> (\<exists>row lrt. analysis_rows dcr = analysis_rows dc @ [row]
            \<and> sm_avg_reaction_time row
                = average (List.map_filter reaction_time (session_data dc))
            \<and> lane_times (session_data dc) (dict_range (length KEYS) []) = Inr lrt
            \<and> sm_avg_lane_reaction_times row = map (\<lambda>(lane, ts). (lane, average ts)) lrt))"
proof -
  let ?dc1 = "record_hit now n lvl st dc"
  have a: "\<exists>e. session_data ?dc1 = session_data dc @ [e]
        \<and> (computed_reaction_time n = Some 0 \<longrightarrow> reaction_time e = None)
        \<and> (computed_reaction_distance n = Some 0 \<longrightarrow> reaction_distance e = None)"
    by (simp add: record_hit_event truthy_def)
  have b: "\<exists>row lrt. analysis_rows dcr = analysis_rows dc @ [row]
            \<and> sm_avg_reaction_time row
                = average (List.map_filter reaction_time (session_data dc))
            \<and> lane_times (session_data dc) (dict_range (length KEYS) []) = Inr lrt
            \<and> sm_avg_lane_reaction_times row = map (\<lambda>(lane, ts). (lane, average ts)) lrt"
    if z: "computed_reaction_time n = Some 0" and an: "analyze_data t ex ?dc1 = Inr dcr"
  proof -
    obtain e where e: "session_data ?dc1 = session_data dc @ [e]" "reaction_time e = None"
      using a z by blast
    have rows: "analysis_rows ?dc1 = analysis_rows dc"
      by (simp add: record_hit_def Let_def)
    have mf: "List.map_filter reaction_time (session_data ?dc1)
        = List.map_filter reaction_time (session_data dc)"
      using e by (simp add: List.map_filter_def)
    have lt: "lane_times (session_data ?dc1) d = lane_times (session_data dc) d" for d
      using e by (simp add: lane_times_append split: sum.splits)
    from analyze_data_lanes_averages [OF an [unfolded analyze_data_def]]
    show ?thesis
      unfolding rows mf lt by blast
  qed
  from a b show ?thesis by blast
qed

theorem zero_reaction_stored_as_absent_witness:
  "(\<exists>e. session_data (record_hit 8 ((Note 1 2 500)\<lparr>hit_time := Some 7, start_hit_time := Some 7\<rparr>)
               1 St_hit (new_collector 0 None None)) = [e]
        \<and> reaction_time e = None \<and> reaction_distance e = None)
   \<and> (\<exists>dcr row. analyze_data 70 False
          (record_hit 8 ((Note 1 2 500)\<lparr>hit_time := Some 7, start_hit_time := Some 7\<rparr>)
               1 St_hit (new_collector 0 None None)) = Inr dcr
        \<and> analysis_rows dcr = [row] \<and> sm_avg_reaction_time row = 0
        \<and> map snd (sm_avg_lane_reaction_times row) = [0, 0, 0, 0])"
proof -
  let ?n = "(Note 1 2 500)\<lparr>hit_time := Some 7, start_hit_time := Some 7\<rparr>"
  let ?dc = "new_collector 0 None None"
  have z: "computed_reaction_time ?n = Some 0" "computed_reaction_distance ?n = Some 0"
    by (simp_all add: computed_reaction_time_def computed_reaction_distance_def truthy_def
        Note_def HIT_LINE_Y_def WINDOW_HEIGHT_def)
  have "\<exists>dcr. analyze_data 70 False (record_hit 8 ?n 1 St_hit ?dc) = Inr dcr"
    by (simp add: analyze_data_def analyze_data_lanes_def KEYS_def record_hit_def truthy_def
        computed_reaction_time_def computed_reaction_distance_def
        HIT_LINE_Y_def WINDOW_HEIGHT_def
        new_collector_def Note_def dict_range_def dict_modify_def Let_def
        upt_conv_Cons)
  then obtain dcr where an: "analyze_data 70 False (record_hit 8 ?n 1 St_hit ?dc) = Inr dcr"
    by blast
  have init: "session_data ?dc = []" "analysis_rows ?dc = []"
    "lane_times [] (dict_range (length KEYS) []) = Inr (dict_range 4 [])"
    by (simp_all add: new_collector_def KEYS_def numeral_eq_Suc)
  from zero_reaction_stored_as_absent [where n = ?n and now = 8 and lvl = 1 and st = St_hit
      and dc = ?dc and t = 70 and ex = False and dcr = dcr] z an
  show ?thesis
    by (auto simp: init List.map_filter_def average_def dict_range_def KEYS_def upt_conv_Cons)
qed

lemma dict_range_of: "dict_range n v = dict_of n (\<lambda>_. v)"
  by (simp add: dict_range_def dict_of_def)

lemma map_of_dict_of:
  "map_of (dict_of n f) k = (if 0 \<le> k \<and> k < int n then Some (f (nat k)) else None)"
proof (induction n)
  case 0
  show ?case by (simp add: dict_of_def)
next
  case (Suc n)
  have "dict_of (Suc n) f = dict_of n f @ [(int n, f n)]"
    by (simp add: dict_of_def)
  with Suc show ?case
    by (auto simp: map_add_def split: option.splits)
qed

lemma dict_of_cong: "(\<And>l. l < n \<Longrightarrow> f l = g l) \<Longrightarrow> dict_of n f = dict_of n g"
  by (simp add: dict_of_def)

lemma dict_modify_dict_of:
  "dict_modify k h (dict_of n f) =
     (if 0 \<le> k \<and> k < int n then Inr (dict_of n (f(nat k := h (f (nat k))))) else Inl KeyError)"
proof -
  have "map (\<lambda>(k', v). if k' = k then (k', h v) else (k', v)) (dict_of n f)
      = dict_of n (f(nat k := h (f (nat k))))" if "0 \<le> k"
    using that by (auto simp: dict_of_def)
  then show ?thesis
    by (simp add: dict_modify_def map_of_dict_of)
qed

lemma lane_count_Cons:
  "lane_count P l (d # ds) = (if P (hit_status d) \<and> ev_lane d = int l then 1 else 0) + lane_count P l ds"
  by (simp add: lane_count_def)

lemma tally_dict_of:
  assumes "\<forall>d\<in>set ds. hit_status d \<in> set both \<longrightarrow> 0 \<le> ev_lane d \<and> ev_lane d < int n"
  shows "tally both one ds (dict_of n fp, dict_of n ft) =
     Inr (dict_of n (\<lambda>l. fp l + lane_count (\<lambda>s. s \<in> set both \<and> s = one) l ds),
          dict_of n (\<lambda>l. ft l + lane_count (\<lambda>s. s \<in> set both) l ds))"
  using assms
proof (induction ds arbitrary: fp ft)
  case Nil
  show ?case by (simp add: lane_count_def)
next
  case (Cons d ds)
  have rest: "\<forall>d\<in>set ds. hit_status d \<in> set both \<longrightarrow> 0 \<le> ev_lane d \<and> ev_lane d < int n"
    using Cons.prems by simp
  show ?case
  proof (cases "hit_status d \<in> set both")
    case False
    then show ?thesis
      using Cons.IH [OF rest] by (simp add: lane_count_Cons)
  next
    case True
    then have rng: "0 \<le> ev_lane d" "ev_lane d < int n"
      using Cons.prems by auto
    show ?thesis
      using True rng
      by (auto simp: dict_modify_dict_of Cons.IH [OF rest] lane_count_Cons
          intro!: dict_of_cong)
  qed
qed

lemma lane_rates_dict_of:
  "\<forall>l\<in>set ls. l < n \<Longrightarrow>
   lane_rates (dict_of n fp) (dict_of n ft) (map int ls) =
     Inr (map (\<lambda>l. (int l, rate (fp l) (ft l))) ls)"
  by (induction ls) (simp_all add: map_of_dict_of)

lemma lane_times_dict_of:
  assumes "\<forall>d\<in>set ds. reaction_time d \<noteq> None \<longrightarrow> 0 \<le> ev_lane d \<and> ev_lane d < int n"
  shows "\<exists>f'. lane_times ds (dict_of n f) = Inr (dict_of n f')"
  using assms
proof (induction ds arbitrary: f)
  case Nil
  show ?case by auto
next
  case (Cons d ds)
  then show ?case
    by (cases "reaction_time d") (auto simp: dict_modify_dict_of)
qed

lemma count_status_pair:
  "a \<noteq> b \<Longrightarrow> count_status [a, b] ds = count_status [a] ds + count_status [b] ds"
  by (induction ds) (auto simp: count_status_def)

lemma lane_count_pair:
  "a \<noteq> b \<Longrightarrow> lane_count (\<lambda>s. s \<in> set [a, b]) l ds
     = lane_count (\<lambda>s. s = a) l ds + lane_count (\<lambda>s. s = b) l ds"
  by (induction ds) (auto simp: lane_count_def)

lemma lane_count_one:
  "lane_count (\<lambda>s. s \<in> set [a, b] \<and> s = a) l ds = lane_count (\<lambda>s. s = a) l ds"
  by (induction ds) (auto simp: lane_count_def)

lemma analyze_data_lanes_hit_rates:
  assumes "\<forall>d\<in>set (session_data dc). 0 \<le> ev_lane d \<and> ev_lane d < int n"
  shows "\<exists>row. analyze_data_lanes n t ex dc
       = Inr (dc\<lparr>analysis_rows := analysis_rows dc @ [row], session_data := []\<rparr>)
     \<and> sm_hit_rate row = rate (count_status [St_hit] (session_data dc))
          (count_status [St_hit] (session_data dc) + count_status [St_miss] (session_data dc))
     \<and> sm_lane_hit_rates row =
          map (\<lambda>l. (int l, rate (lane_count (\<lambda>s. s = St_hit) l (session_data dc))
                 (lane_count (\<lambda>s. s = St_hit) l (session_data dc)
                    + lane_count (\<lambda>s. s = St_miss) l (session_data dc)))) [0..<n]"
proof -
  let ?ds = "session_data dc"
  have t1: "tally [St_hit, St_miss] St_hit ?ds (dict_range n 0, dict_range n 0) =
      Inr (dict_of n (\<lambda>l. lane_count (\<lambda>s. s = St_hit) l ?ds),
           dict_of n (\<lambda>l. lane_count (\<lambda>s. s = St_hit) l ?ds
                          + lane_count (\<lambda>s. s = St_miss) l ?ds))"
    using assms
    by (simp add: dict_range_of tally_dict_of lane_count_one lane_count_pair del: set_simps)
  obtain pi ti where t2: "tally [St_hit, St_incorrect] St_incorrect ?ds
      (dict_range n 0, dict_range n 0) = Inr (dict_of n pi, dict_of n ti)"
    using assms by (simp add: dict_range_of tally_dict_of)
  obtain f' where lt: "lane_times ?ds (dict_range n []) = Inr (dict_of n f')"
    using lane_times_dict_of [of ?ds n "\<lambda>_. []"] assms by (auto simp: dict_range_of)
  have lr: "lane_rates (dict_of n fp) (dict_of n ft) (map int [0..<n])
      = Inr (map (\<lambda>l. (int l, rate (fp l) (ft l))) [0..<n])" for fp ft
    by (rule lane_rates_dict_of) simp
  let ?row = "\<lparr>sm_level = dc_level dc,
      sm_hit_rate = rate (count_status [St_hit] ?ds)
                      (count_status [St_hit] ?ds + count_status [St_miss] ?ds),
      sm_lane_hit_rates =
        map (\<lambda>l. (int l, rate (lane_count (\<lambda>s. s = St_hit) l ?ds)
               (lane_count (\<lambda>s. s = St_hit) l ?ds + lane_count (\<lambda>s. s = St_miss) l ?ds)))
          [0..<n],
      sm_avg_reaction_time = average (List.map_filter reaction_time ?ds),
      sm_avg_lane_reaction_times = map (\<lambda>(lane, ts). (lane, average ts)) (dict_of n f'),
      sm_incorrect_hit_rate = rate (count_status [St_incorrect] ?ds)
                      (count_status [St_hit] ?ds + count_status [St_incorrect] ?ds),
      sm_lane_incorrect_hit_rates = map (\<lambda>l. (int l, rate (pi l) (ti l))) [0..<n],
      sm_game_duration = t, sm_exit_rate = (if ex then 1 else 0)\<rparr>"
  have "analyze_data_lanes n t ex dc
       = Inr (dc\<lparr>analysis_rows := analysis_rows dc @ [?row], session_data := []\<rparr>)"
    by (simp add: analyze_data_lanes_def t1 t2 lt lr count_status_pair Let_def)
  then show ?thesis
    by (intro exI [of _ ?row]) simp
qed

lemma rate_half: "0 < a \<Longrightarrow> rate a (a + a) = 1 / 2"
  by (simp add: rate_def)

text \<open>
  Claim C9: let the buffer hold exactly \<open>k \<ge> 1\<close> hits and \<open>k\<close> misses, every lane of the
  \<open>L\<close> lanes holding the same number of hits and the same number of misses (\<open>k / L\<close>
  of each), all records in lanes \<open>0..L-1\<close>. Then summarising returns normally, the
  overall hit rate is exactly one half, the hit rate of every lane is exactly one half,
  and the buffer is empty afterwards. The source fixes \<open>L\<close> at \<^verbatim>\<open>len(KEYS)\<close>.
\<close>

theorem even_split_hit_rate_half:
  assumes lanes: "\<forall>d\<in>set (session_data dc). 0 \<le> ev_lane d \<and> ev_lane d < int L"
    and k: "1 \<le> k"
    and hits: "count_status [St_hit] (session_data dc) = k"
    and misses: "count_status [St_miss] (session_data dc) = k"
    and split: "\<forall>l<L. L * lane_count (\<lambda>s. s = St_hit) l (session_data dc) = k
                    \<and> L * lane_count (\<lambda>s. s = St_miss) l (session_data dc) = k"
  shows "\<exists>dc' row. analyze_data_lanes L t ex dc = Inr dc'
     \<and> session_data dc' = []
     \<and> analysis_rows dc' = analysis_rows dc @ [row]
     \<and> sm_hit_rate row = 1 / 2
     \<and> map fst (sm_lane_hit_rates row) = map int [0..<L]
     \<and> (\<forall>l<L. map_of (sm_lane_hit_rates row) (int l) = Some (1 / 2))"
proof -
  let ?ds = "session_data dc"
  obtain row where row: "analyze_data_lanes L t ex dc
       = Inr (dc\<lparr>analysis_rows := analysis_rows dc @ [row], session_data := []\<rparr>)"
    "sm_hit_rate row = rate (count_status [St_hit] ?ds)
          (count_status [St_hit] ?ds + count_status [St_miss] ?ds)"
    "sm_lane_hit_rates row =
          map (\<lambda>l. (int l, rate (lane_count (\<lambda>s. s = St_hit) l ?ds)
                 (lane_count (\<lambda>s. s = St_hit) l ?ds
                    + lane_count (\<lambda>s. s = St_miss) l ?ds))) [0..<L]"
    using analyze_data_lanes_hit_rates [OF lanes] by blast
  have overall: "sm_hit_rate row = 1 / 2"
    using k by (simp add: row(2) hits misses rate_half)
  have lane: "rate (lane_count (\<lambda>s. s = St_hit) l ?ds)
                 (lane_count (\<lambda>s. s = St_hit) l ?ds
                    + lane_count (\<lambda>s. s = St_miss) l ?ds) = 1 / 2" if "l < L" for l
  proof -
    from split that have h: "L * lane_count (\<lambda>s. s = St_hit) l ?ds = k"
      and m: "L * lane_count (\<lambda>s. s = St_miss) l ?ds = k"
      by auto
    from h k have pos: "0 < lane_count (\<lambda>s. s = St_hit) l ?ds"
      by (cases "lane_count (\<lambda>s. s = St_hit) l ?ds") auto
    from h m that have "lane_count (\<lambda>s. s = St_miss) l ?ds = lane_count (\<lambda>s. s = St_hit) l ?ds"
      by (metis mult_cancel1 not_less_zero)
    with pos show ?thesis
      by (simp add: rate_half)
  qed
  have keys: "map fst (sm_lane_hit_rates row) = map int [0..<L]"
    by (simp add: row(3) comp_def)
  have lanes_half: "\<forall>l<L. map_of (sm_lane_hit_rates row) (int l) = Some (1 / 2)"
  proof (intro allI impI)
    fix l assume l: "l < L"
    have "sm_lane_hit_rates row = dict_of L (\<lambda>l. rate (lane_count (\<lambda>s. s = St_hit) l ?ds)
                 (lane_count (\<lambda>s. s = St_hit) l ?ds
                    + lane_count (\<lambda>s. s = St_miss) l ?ds))"
      by (simp add: row(3) dict_of_def)
    then show "map_of (sm_lane_hit_rates row) (int l) = Some (1 / 2)"
      using l lane [OF l] by (simp add: map_of_dict_of)
  qed
  from row(1) overall keys lanes_half show ?thesis
    by simp
qed

theorem even_split_hit_rate_half_witness:
  "\<exists>dc' row. analyze_data 70 False even_buffer = Inr dc'
     \<and> session_data dc' = [] \<and> analysis_rows dc' = [row]
     \<and> sm_hit_rate row = 1 / 2
     \<and> map_of (sm_lane_hit_rates row) 0 = Some (1 / 2)
     \<and> map_of (sm_lane_hit_rates row) 1 = Some (1 / 2)
     \<and> map_of (sm_lane_hit_rates row) 2 = Some (1 / 2)
     \<and> map_of (sm_lane_hit_rates row) 3 = Some (1 / 2)"
proof -
  have lanes: "\<forall>d\<in>set (session_data even_buffer). 0 \<le> ev_lane d \<and> ev_lane d < int 4"
    by (simp add: even_buffer_def example_event_def)
  have counts: "count_status [St_hit] (session_data even_buffer) = 4"
    "count_status [St_miss] (session_data even_buffer) = 4"
    by (simp_all add: even_buffer_def example_event_def count_status_def)
  have split: "\<forall>l<4. 4 * lane_count (\<lambda>s. s = St_hit) l (session_data even_buffer) = 4
                    \<and> 4 * lane_count (\<lambda>s. s = St_miss) l (session_data even_buffer) = 4"
    by (simp add: even_buffer_def example_event_def lane_count_def numeral_eq_Suc less_Suc_eq)
  have rows: "analysis_rows even_buffer = []"
    by (simp add: even_buffer_def new_collector_def)
  have four: "P 0 \<and> P 1 \<and> P 2 \<and> P 3" if a: "\<forall>l<4::nat. P (int l)" for P :: "int \<Rightarrow> bool"
    using a [rule_format, of 0] a [rule_format, of 1] a [rule_format, of 2]
      a [rule_format, of 3]
    by simp
  from even_split_hit_rate_half [OF lanes _ counts split, of 70 False]
  obtain dc' row where r: "analyze_data_lanes 4 70 False even_buffer = Inr dc'"
    "session_data dc' = []" "analysis_rows dc' = analysis_rows even_buffer @ [row]"
    "sm_hit_rate row = 1 / 2"
    "\<forall>l<4. map_of (sm_lane_hit_rates row) (int l) = Some (1 / 2)"
    by auto
  have len: "length KEYS = 4"
    by (simp add: KEYS_def)
  from four [OF r(5)] r(1-4) show ?thesis
    unfolding analyze_data_def len rows by auto
qed

subsection \<open>The per-tick update of the markers\<close>









lemma press_notes_subset:
  "set (ng_notes (note_generator (press clk lane g))) \<subseteq> set (ng_notes (note_generator g))"
proof (cases "\<exists>n\<in>set (ng_notes (note_generator g)). can_be_hit lane n")
  case True
  then obtain pre m post where sp: "ng_notes (note_generator g) = pre @ m # post"
    "can_be_hit lane m" "\<forall>n\<in>set pre. \<not> can_be_hit lane n"
    using split_list_first_prop [of "ng_notes (note_generator g)" "can_be_hit lane"] by blast
  show ?thesis
    by (auto simp: press_first [OF sp(1) sp(3) sp(2)] sp(1))
next
  case False
  then show ?thesis
    by (simp add: press_none)
qed



subsection \<open>The session clock\<close>

text \<open>
  Under a wall clock that never goes back, \<open>clock_ok\<close> holds after \<open>init_game\<close> and is
  kept by a press, by pausing and resuming and by \<open>update\<close>; \<open>update\<close> does not
  decrease the elapsed time within a level, and the effective elapsed time at a resume
  is the one at the pause.
\<close>

lemma update_note_frame:
  "update_note clk n g = Inr (r, g') \<Longrightarrow>
   start_time g' = start_time g \<and> total_paused_time g' = total_paused_time g
   \<and> paused g' = paused g \<and> pause_start_time g' = pause_start_time g
   \<and> current_time g' = current_time g \<and> clock_reads g \<le> clock_reads g'
   \<and> current_level g' = current_level g \<and> in_menu g' = in_menu g \<and> game_over g' = game_over g"
  by (auto simp: update_note_def Let_def tick_def split: if_splits option.splits)

lemma update_notes_frame:
  "update_notes clk ns g = Inr (rs, g') \<Longrightarrow>
   start_time g' = start_time g \<and> total_paused_time g' = total_paused_time g
   \<and> paused g' = paused g \<and> pause_start_time g' = pause_start_time g
   \<and> current_time g' = current_time g \<and> clock_reads g \<le> clock_reads g'
   \<and> current_level g' = current_level g \<and> in_menu g' = in_menu g \<and> game_over g' = game_over g"
proof (induction ns arbitrary: g rs g')
  case Nil
  then show ?case by simp
next
  case (Cons n ns)
  from Cons.prems obtain r g1 rs1 where
    st: "update_note clk n g = Inr (r, g1)" and
    rest: "update_notes clk ns g1 = Inr (rs1, g')"
    by (auto split: sum.splits prod.splits)
  from update_note_frame [OF st] Cons.IH [OF rest] show ?case
    by simp
qed

lemma init_game_clock_ok:
  assumes "mono clk" "init_game fs stamp clk sh g = Inr g'"
  shows "clock_ok clk g' \<and> \<not> paused g' \<and> current_time g' = 0"
proof -
  have "clk (Suc (clock_reads g)) \<le> clk (Suc (Suc (clock_reads g)))"
    using assms(1) by (simp add: monoD)
  with assms(2) show ?thesis
    by (auto simp: init_game_def DataCollector_init_def clock_ok_def Let_def tick_def
        time_now_def split: sum.splits if_splits)
qed

lemma toggle_pause_clock_ok:
  assumes "mono clk" "clock_ok clk g" "toggle_pause clk g = Inr g'"
  shows "clock_ok clk g' \<and> current_time g' = current_time g"
proof -
  have "clk (clock_reads g) \<le> clk (Suc (clock_reads g))"
    using assms(1) by (simp add: monoD)
  with assms(2,3) show ?thesis
    by (auto simp: toggle_pause_def clock_ok_def Let_def tick_def time_now_def
        split: if_splits option.splits)
qed

lemma pause_resume_elapsed:
  assumes "\<not> paused g" "\<not> in_menu g" "\<not> game_over g"
    and "toggle_pause clk g = Inr g1"
    and "paused h = paused g1" "in_menu h = in_menu g1" "game_over h = game_over g1"
      "pause_start_time h = pause_start_time g1" "start_time h = start_time g1"
      "total_paused_time h = total_paused_time g1"
    and "toggle_pause clk h = Inr g2"
  shows "\<not> paused g2 \<and>
     time_now clk h - start_time g2 - total_paused_time g2
       = time_now clk g - start_time g - total_paused_time g"
  using assms
  by (auto simp: toggle_pause_def Let_def tick_def time_now_def split: if_splits option.splits)

lemma update_clock_ok:
  assumes m: "mono clk" and ok: "clock_ok clk g" and up: "update clk rnd fr ans g = Inr g'"
  shows "clock_ok clk g' \<and> (current_level g' = current_level g \<longrightarrow> current_time g \<le> current_time g')"
proof (cases "\<not> paused g \<and> \<not> in_menu g \<and> \<not> game_over g")
  case False
  with up ok show ?thesis by (auto simp: update_def)
next
  case True
  define ct where "ct = time_now clk g - start_time g - total_paused_time g"
  define gs where "gs = (tick g)\<lparr>current_time := ct,
      note_generator := NoteGenerator_update (difficulty_manager g) rnd ct (note_generator g)\<rparr>"
  define fin where "fin = (\<lambda>ns g3.
      let g4 = g3\<lparr>note_generator := (note_generator g3)\<lparr>ng_notes := ns\<rparr>\<rparr>;
          g5 = update_flash fr g4
      in if current_time g5 \<ge> GAME_DURATION
         then (case show_feedback ans False g5 of
                 Inl e \<Rightarrow> Inl e
               | Inr g6 \<Rightarrow> advance_level clk g6)
         else Inr g5)"
  have eq: "update clk rnd fr ans g =
      (case update_notes clk (ng_notes (note_generator gs)) gs of
         Inl e \<Rightarrow> Inl e
       | Inr (ns, g3) \<Rightarrow> fin ns g3)"
    unfolding fin_def using True by (simp add: update_def gs_def ct_def Let_def tick_def)
  from up eq obtain ns g3 where
    loop: "update_notes clk (ng_notes (note_generator gs)) gs = Inr (ns, g3)"
    and f: "fin ns g3 = Inr g'"
    by (auto split: sum.splits prod.splits)
  define g5 where "g5 = update_flash fr (g3\<lparr>note_generator := (note_generator g3)\<lparr>ng_notes := ns\<rparr>\<rparr>)"
  from ok True have ct: "0 \<le> ct" "current_time g \<le> ct"
    by (auto simp: clock_ok_def ct_def time_now_def)
  have fr5: "start_time g5 = start_time g" "total_paused_time g5 = total_paused_time g"
    "\<not> paused g5" "current_time g5 = ct" "Suc (clock_reads g) \<le> clock_reads g5"
    "current_level g5 = current_level g"
    using update_notes_frame [OF loop] True
    by (simp_all add: g5_def update_flash_def gs_def tick_def Let_def)
  have "clk (clock_reads g) \<le> clk (clock_reads g5)"
    using m fr5(5) by (simp add: monoD)
  with ct fr5 have ok5: "clock_ok clk g5"
    by (simp add: clock_ok_def ct_def time_now_def)
  from f have "g' = g5 \<or>
      (\<exists>g6. show_feedback ans False g5 = Inr g6 \<and> advance_level clk g6 = Inr g')"
    unfolding fin_def g5_def [symmetric] Let_def
    by (auto split: sum.splits if_splits)
  then show ?thesis
  proof
    assume "g' = g5"
    with ok5 ct fr5 show ?thesis by simp
  next
    assume "\<exists>g6. show_feedback ans False g5 = Inr g6 \<and> advance_level clk g6 = Inr g'"
    then obtain g6 where sf: "show_feedback ans False g5 = Inr g6"
      and al: "advance_level clk g6 = Inr g'"
      by blast
    from sf have g6: "g6 = g5 \<or> (\<exists>dc. g6 = g5\<lparr>data_collector := dc\<rparr>)"
      by (auto simp: show_feedback_def Let_def split: option.splits sum.splits)
    then have ok6: "clock_ok clk g6" "current_level g6 = current_level g" "\<not> paused g6"
      using ok5 fr5 by (auto simp: clock_ok_def)
    have "clk (clock_reads g6) \<le> clk (Suc (clock_reads g6))"
      using m by (simp add: monoD)
    with al ok6 show ?thesis
      by (auto simp: advance_level_def clock_ok_def Let_def tick_def time_now_def
          split: if_splits sum.splits)
  qed
qed

lemma press_clock_ok:
  assumes m: "mono clk" and ok: "clock_ok clk g"
  shows "clock_ok clk (press clk lane g) \<and> current_time (press clk lane g) = current_time g"
proof -
  have le: "clk (clock_reads g) \<le> clk (Suc (Suc (clock_reads g)))"
    using m by (simp add: monoD)
  show ?thesis
  proof (cases "\<exists>n\<in>set (ng_notes (note_generator g)). can_be_hit lane n")
    case True
    then obtain pre n post where sp: "ng_notes (note_generator g) = pre @ n # post"
      "can_be_hit lane n" "\<forall>n\<in>set pre. \<not> can_be_hit lane n"
      using split_list_first_prop [of "ng_notes (note_generator g)" "can_be_hit lane"] by blast
    from ok le show ?thesis
      by (auto simp: press_first [OF sp(1) sp(3) sp(2)] hit_note_def clock_ok_def
          Let_def tick_def split: option.splits)
  next
    case False
    with ok le show ?thesis
      by (auto simp: press_none clock_ok_def split: option.splits)
  qed
qed

lemma slow_skip_clock_mono: "i \<le> j \<Longrightarrow> slow_skip_clock i \<le> slow_skip_clock j"
  by (simp add: slow_skip_clock_def)

text \<open>
  Claim C7 says that the effective elapsed time of the session clock is never negative.
  The code at the run \<open>skip_while_paused\<close>, whose wall clock never goes back: the last
  \<open>update\<close> finds the start time 1020 and the accumulated pause 21, and at the reading
  1021 sets the elapsed time to -20.
\<close>

theorem skip_while_paused_negative_time:
  "map_sum (\<lambda>e. e) (\<lambda>g. (current_time g, start_time g, total_paused_time g, paused g))
     (steps skip_while_paused Game_init) = Inr (- 20, 1020, 21, False)"
  by code_simp

end
